theory Spec2Isabelle
  imports Complex_Main "HOL-Library.Multiset"
begin

section \<open>Python values shared by the pipeline and the server\<close>

text \<open>
  An exception is its class name and its message; \<open>str(e)\<close> is the message. Python
  floats are read as reals: the code only stores, compares and takes maxima of them.
\<close>

datatype exn = PyExc (exc_class: string) (exc_str: string)

text \<open>A DataFrame cell, which is also an element of the arrays handed to an estimator.\<close>

datatype cell = Null | Num real | Str string

text \<open>
  A value read by \<open>json.load\<close>. \<open>JNull\<close> is Python's \<open>None\<close>; \<open>JObj\<close> lists the
  items of the dict in insertion order.
\<close>

datatype json =
  JNull | JBool bool | JNum real | JStr string | JArr "json list" | JObj "(string \<times> json) list"

text \<open>\<open>obj.get(key, default)\<close>: only a dict has the method.\<close>

fun py_get :: "json \<Rightarrow> string \<Rightarrow> json \<Rightarrow> exn + json" where
  "py_get (JObj kvs) k d = Inr (case map_of kvs k of None \<Rightarrow> d | Some v \<Rightarrow> v)"
| "py_get _ k d = Inl (PyExc ''AttributeError'' ''object has no attribute get'')"

text \<open>Truth value of a Python object, as \<open>x or {}\<close> tests it.\<close>

fun truthy :: "json \<Rightarrow> bool" where
  "truthy JNull = False"
| "truthy (JBool b) = b"
| "truthy (JNum r) = (r \<noteq> 0)"
| "truthy (JStr s) = (s \<noteq> [])"
| "truthy (JArr xs) = (xs \<noteq> [])"
| "truthy (JObj kvs) = (kvs \<noteq> [])"

text \<open>The format specification \<open>:.4f\<close> accepts numbers (and booleans, which are ints).\<close>

fun format_4f :: "json \<Rightarrow> exn + unit" where
  "format_4f (JNum r) = Inr ()"
| "format_4f (JBool b) = Inr ()"
| "format_4f (JStr s) = Inl (PyExc ''ValueError'' ''Unknown format code f for object of type str'')"
| "format_4f _ = Inl (PyExc ''TypeError'' ''unsupported format string passed to __format__'')"

text \<open>
  The trained artifact is opaque: the code calls \<open>predict\<close> and \<open>predict_proba\<close> on a
  whole array and reads \<open>feature_importances_\<close>. Each call may raise. A label is kept
  as the string \<open>str(label)\<close> gives, which is all the server uses of it.
\<close>

record artifact =
  model_predict :: "cell list list \<Rightarrow> exn + string list"
  model_predict_proba :: "cell list list \<Rightarrow> exn + real list list"
  model_feature_importances :: "real list"

text \<open>\<open>np.max\<close> of one row: an empty row has no maximum and raises.\<close>

fun np_max :: "real list \<Rightarrow> exn + real" where
  "np_max [] =
     Inl (PyExc ''ValueError'' ''zero-size array to reduction operation maximum which has no identity'')"
| "np_max (x # xs) = Inr (fold max xs x)"

section \<open>Files\<close>

record dataframe =
  columns :: "string list"
  rows :: "cell list list"

text \<open>
  What a path holds, by what the readers of this repository make of it: a CSV table,
  a pickled object (possibly \<open>None\<close>), a JSON document, or anything else.
\<close>

datatype file_content = CsvFile dataframe | PickleFile "artifact option" | JsonFile json | OtherFile

type_synonym filesystem = "string \<rightharpoonup> file_content"

fun joblib_load :: "file_content \<Rightarrow> exn + artifact option" where
  "joblib_load (PickleFile obj) = Inr obj"
| "joblib_load _ = Inl (PyExc ''UnpicklingError'' ''invalid load key'')"

fun json_load :: "file_content \<Rightarrow> exn + json" where
  "json_load (JsonFile j) = Inr j"
| "json_load _ = Inl (PyExc ''JSONDecodeError'' ''Expecting value'')"

fun read_csv :: "file_content \<Rightarrow> exn + dataframe" where
  "read_csv (CsvFile df) = Inr df"
| "read_csv _ = Inl (PyExc ''ParserError'' ''Error tokenizing data'')"

text \<open>
  The ordered existence probe of both loaders:
  \<^verbatim>\<open>for path in possible_paths: if os.path.exists(path): found = path; break\<close>
\<close>

fun first_existing :: "filesystem \<Rightarrow> string list \<Rightarrow> (string \<times> file_content) option" where
  "first_existing fs [] = None"
| "first_existing fs (path # paths) =
     (case fs path of Some f \<Rightarrow> Some (path, f) | None \<Rightarrow> first_existing fs paths)"

text \<open>\<open>os.path.dirname\<close> (posixpath): the part up to the last slash, trailing slashes
  stripped unless it consists of slashes only.\<close>

definition dirname :: "string \<Rightarrow> string" where
  "dirname p =
     (let head = rev (dropWhile (\<lambda>c. c \<noteq> CHR ''/'') (rev p))
      in if head \<noteq> [] \<and> \<not> list_all (\<lambda>c. c = CHR ''/'') head
         then rev (dropWhile (\<lambda>c. c = CHR ''/'') (rev head))
         else head)"

section \<open>The inference server (api/main.py)\<close>

subsection \<open>Process state and startup load\<close>

text \<open>The three module globals.\<close>

record server_state =
  MODEL :: "artifact option"
  MODEL_METADATA :: json
  MODEL_LOADED :: bool

definition initial_state :: server_state where
  "initial_state = \<lparr>MODEL = None, MODEL_METADATA = JNull, MODEL_LOADED = False\<rparr>"

definition possible_paths :: "string list" where
  "possible_paths =
     [''models/model.pkl'', ''./models/model.pkl'',
      ''/opt/airflow/models/model.pkl'', ''/app/models/model.pkl'']"

text \<open>The three log lines that follow the metadata load; each may raise.\<close>

definition log_metadata :: "json \<Rightarrow> exn + unit" where
  "log_metadata md =
     (case py_get md ''features_used'' (JArr []) of
        Inl e \<Rightarrow> Inl e
      | Inr _ \<Rightarrow>
          (case py_get md ''classes'' (JArr []) of
             Inl e \<Rightarrow> Inl e
           | Inr _ \<Rightarrow>
               (case py_get md ''train_accuracy'' (JNum 0) of
                  Inl e \<Rightarrow> Inl e
                | Inr acc \<Rightarrow> format_4f acc)))"

text \<open>
  \<open>load_model\<close>: every exception inside the \<open>try\<close> leaves the globals assigned so
  far and sets \<open>MODEL_LOADED = False\<close>.
\<close>

definition load_model :: "filesystem \<Rightarrow> server_state \<Rightarrow> server_state" where
  "load_model fs s =
     (case first_existing fs possible_paths of
        None \<Rightarrow> s\<lparr>MODEL_LOADED := False\<rparr>
      | Some (model_path, f) \<Rightarrow>
          (case joblib_load f of
             Inl e \<Rightarrow> s\<lparr>MODEL_LOADED := False\<rparr>
           | Inr obj \<Rightarrow>
               (let s1 = s\<lparr>MODEL := obj\<rparr>;
                    metadata_path = dirname model_path @ ''/metrics.json''
                in case fs metadata_path of
                     None \<Rightarrow> s1\<lparr>MODEL_LOADED := True\<rparr>
                   | Some mf \<Rightarrow>
                       (case json_load mf of
                          Inl e \<Rightarrow> s1\<lparr>MODEL_LOADED := False\<rparr>
                        | Inr md \<Rightarrow>
                            (let s2 = s1\<lparr>MODEL_METADATA := md\<rparr>
                             in case log_metadata md of
                                  Inl e \<Rightarrow> s2\<lparr>MODEL_LOADED := False\<rparr>
                                | Inr _ \<Rightarrow> s2\<lparr>MODEL_LOADED := True\<rparr>)))))"

text \<open>The guard of every endpoint: \<open>MODEL_LOADED and MODEL is not None\<close>.\<close>

definition loaded :: "server_state \<Rightarrow> bool" where
  "loaded s = (MODEL_LOADED s \<and> MODEL s \<noteq> None)"

subsection \<open>Responses\<close>

text \<open>
  A handler either returns a body or ends in an error response: an \<open>HTTPException\<close> it
  raises, or the answer of \<open>general_exception_handler\<close> (status 500) for any other
  exception that leaves it.
\<close>

datatype http_error = HTTPException (status_code: nat) (detail: string) | InternalServerError

record HealthResponse =
  status :: string
  model_loaded :: bool
  model_version :: "string option"
  timestamp :: string
  message :: string

record ModelInfo =
  model_name :: string
  model_type :: string
  features :: "string list"
  classes :: "string list"
  accuracy :: real
  info_timestamp :: string

record PredictionInput =
  sepal_length :: real
  sepal_width :: real
  petal_length :: real
  petal_width :: real

record PredictionOutput =
  prediction :: string
  confidence :: real
  input_features :: "(string \<times> real) list"
  output_model_version :: string
  output_timestamp :: string

record batch_item =
  index :: nat
  item_prediction :: string
  item_confidence :: real
  item_input_features :: "(string \<times> real) list"

record batch_response =
  total_samples :: nat
  predictions :: "batch_item list"
  batch_timestamp :: string

text \<open>The calls a handler makes on the artifact, in order.\<close>

datatype call = Predict "cell list list" | PredictProba "cell list list"

subsection \<open>Health and model information\<close>

text \<open>\<open>now\<close> stands for \<open>datetime.now().isoformat()\<close>.\<close>

definition health_check :: "server_state \<Rightarrow> string \<Rightarrow> http_error + HealthResponse" where
  "health_check s now =
     (if MODEL_LOADED s \<and> MODEL s \<noteq> None
      then Inr \<lparr>status = ''healthy'', model_loaded = MODEL_LOADED s,
                model_version = Some ''1.0.0'', timestamp = now,
                message = ''API is running and model is loaded''\<rparr>
      else Inr \<lparr>status = ''unhealthy'', model_loaded = MODEL_LOADED s,
                model_version = None, timestamp = now,
                message = ''API is running but model is not loaded''\<rparr>)"

definition default_features :: json where
  "default_features =
     JArr [JStr ''sepal_length'', JStr ''sepal_width'', JStr ''petal_length'', JStr ''petal_width'']"

definition default_classes :: json where
  "default_classes = JArr [JStr ''setosa'', JStr ''versicolor'', JStr ''virginica'']"

text \<open>
  Validation of the fields of \<open>ModelInfo\<close> (\<open>features, classes: List[str]\<close>,
  \<open>accuracy: float\<close>). pydantic is not part of the repository. What every version of
  it does is written out: a list field accepts only a list, a string item is taken as
  it is, a number is taken as the float. Whether another item is coerced to a string,
  or another value to a float, depends on the installed version, and is a parameter.
\<close>

record pydantic =
  str_from_other :: "json \<Rightarrow> string option"
  float_from_other :: "json \<Rightarrow> real option"

fun validate_str :: "pydantic \<Rightarrow> json \<Rightarrow> string option" where
  "validate_str pv (JStr s) = Some s"
| "validate_str pv j = str_from_other pv j"

fun validate_strs :: "pydantic \<Rightarrow> json list \<Rightarrow> string list option" where
  "validate_strs pv [] = Some []"
| "validate_strs pv (j # js) =
     (case validate_str pv j of
        None \<Rightarrow> None
      | Some s \<Rightarrow> (case validate_strs pv js of None \<Rightarrow> None | Some ss \<Rightarrow> Some (s # ss)))"

fun validate_str_list :: "pydantic \<Rightarrow> json \<Rightarrow> string list option" where
  "validate_str_list pv (JArr js) = validate_strs pv js"
| "validate_str_list pv j = None"

fun validate_float :: "pydantic \<Rightarrow> json \<Rightarrow> real option" where
  "validate_float pv (JNum r) = Some r"
| "validate_float pv j = float_from_other pv j"

text \<open>
  \<open>get_model_info\<close>. An \<open>AttributeError\<close> of \<open>metadata.get\<close> and a
  \<open>ValidationError\<close> of \<open>ModelInfo(...)\<close> both leave the handler and become the 500
  answer.
\<close>

definition get_model_info :: "pydantic \<Rightarrow> server_state \<Rightarrow> string \<Rightarrow> http_error + ModelInfo" where
  "get_model_info pv s now =
     (if \<not> MODEL_LOADED s \<or> MODEL s = None
      then Inl (HTTPException 503 ''Model not loaded'')
      else
        (let metadata = (if truthy (MODEL_METADATA s) then MODEL_METADATA s else JObj [])
         in case py_get metadata ''features_used'' default_features of
              Inl e \<Rightarrow> Inl InternalServerError
            | Inr fs \<Rightarrow>
                (case py_get metadata ''classes'' default_classes of
                   Inl e \<Rightarrow> Inl InternalServerError
                 | Inr cs \<Rightarrow>
                     (case py_get metadata ''train_accuracy'' (JNum 1) of
                        Inl e \<Rightarrow> Inl InternalServerError
                      | Inr acc \<Rightarrow>
                          (case (validate_str_list pv fs, validate_str_list pv cs,
                                 validate_float pv acc) of
                             (Some features_ok, Some classes_ok, Some accuracy_ok) \<Rightarrow>
                               Inr \<lparr>model_name = ''Random Forest Classifier'',
                                    model_type = ''sklearn.ensemble.RandomForestClassifier'',
                                    features = features_ok, classes = classes_ok,
                                    accuracy = accuracy_ok, info_timestamp = now\<rparr>
                           | _ \<Rightarrow> Inl InternalServerError)))))"

subsection \<open>Prediction\<close>

definition feature_row :: "PredictionInput \<Rightarrow> cell list" where
  "feature_row p = [Num (sepal_length p), Num (sepal_width p), Num (petal_length p), Num (petal_width p)]"

definition echo_features :: "PredictionInput \<Rightarrow> (string \<times> real) list" where
  "echo_features p =
     [(''sepal_length'', sepal_length p), (''sepal_width'', sepal_width p),
      (''petal_length'', petal_length p), (''petal_width'', petal_width p)]"

definition index_error :: exn where
  "index_error = PyExc ''IndexError'' ''index 0 is out of bounds for axis 0 with size 0''"

text \<open>The body of the \<open>try\<close> of \<open>predict\<close>, with the artifact calls it made.\<close>

definition predict_try :: "artifact \<Rightarrow> string \<Rightarrow> PredictionInput \<Rightarrow> call list \<times> (exn + PredictionOutput)" where
  "predict_try m now input_data =
     (let fm = [feature_row input_data]
      in case model_predict m fm of
           Inl e \<Rightarrow> ([Predict fm], Inl e)
         | Inr [] \<Rightarrow> ([Predict fm], Inl index_error)
         | Inr (label # _) \<Rightarrow>
             (case model_predict_proba m fm of
                Inl e \<Rightarrow> ([Predict fm, PredictProba fm], Inl e)
              | Inr [] \<Rightarrow> ([Predict fm, PredictProba fm], Inl index_error)
              | Inr (prediction_proba # _) \<Rightarrow>
                  (case np_max prediction_proba of
                     Inl e \<Rightarrow> ([Predict fm, PredictProba fm], Inl e)
                   | Inr c \<Rightarrow>
                       ([Predict fm, PredictProba fm],
                        Inr \<lparr>prediction = label, confidence = c,
                             input_features = echo_features input_data,
                             output_model_version = ''1.0.0'',
                             output_timestamp = now\<rparr>))))"

definition predict :: "server_state \<Rightarrow> string \<Rightarrow> PredictionInput \<Rightarrow> call list \<times> (http_error + PredictionOutput)" where
  "predict s now input_data =
     (case (MODEL_LOADED s, MODEL s) of
        (True, Some m) \<Rightarrow>
          (case predict_try m now input_data of
             (calls, Inl e) \<Rightarrow> (calls, Inl (HTTPException 400 (''Prediction failed: '' @ exc_str e)))
           | (calls, Inr out) \<Rightarrow> (calls, Inr out))
      | _ \<Rightarrow> ([], Inl (HTTPException 503 ''Model is not loaded. Please check server logs.'')))"

text \<open>
  The loop \<open>for i, (pred, proba) in enumerate(zip(batch_predictions, batch_probas))\<close>:
  \<open>zip\<close> stops at the shorter output; \<open>np.max(proba)\<close> is evaluated before
  \<open>predictions[i]\<close>, which raises past the end of the request list.
\<close>

fun batch_results :: "PredictionInput list \<Rightarrow> nat \<Rightarrow> (string \<times> real list) list \<Rightarrow> exn + batch_item list" where
  "batch_results ps i [] = Inr []"
| "batch_results ps i ((pred, proba) # rest) =
     (case np_max proba of
        Inl e \<Rightarrow> Inl e
      | Inr c \<Rightarrow>
          (if i < length ps
           then (case batch_results ps (Suc i) rest of
                   Inl e \<Rightarrow> Inl e
                 | Inr results \<Rightarrow>
                     Inr (\<lparr>index = i, item_prediction = pred, item_confidence = c,
                           item_input_features = echo_features (ps ! i)\<rparr> # results))
           else Inl (PyExc ''IndexError'' ''list index out of range'')))"

definition predict_batch_try :: "artifact \<Rightarrow> string \<Rightarrow> PredictionInput list \<Rightarrow> call list \<times> (exn + batch_response)" where
  "predict_batch_try m now ps =
     (let fm = map feature_row ps
      in case model_predict m fm of
           Inl e \<Rightarrow> ([Predict fm], Inl e)
         | Inr batch_predictions \<Rightarrow>
             (case model_predict_proba m fm of
                Inl e \<Rightarrow> ([Predict fm, PredictProba fm], Inl e)
              | Inr batch_probas \<Rightarrow>
                  (case batch_results ps 0 (zip batch_predictions batch_probas) of
                     Inl e \<Rightarrow> ([Predict fm, PredictProba fm], Inl e)
                   | Inr results \<Rightarrow>
                       ([Predict fm, PredictProba fm],
                        Inr \<lparr>total_samples = length ps, predictions = results,
                             batch_timestamp = now\<rparr>))))"

definition predict_batch :: "server_state \<Rightarrow> string \<Rightarrow> PredictionInput list \<Rightarrow> call list \<times> (http_error + batch_response)" where
  "predict_batch s now ps =
     (case (MODEL_LOADED s, MODEL s) of
        (True, Some m) \<Rightarrow>
          (case predict_batch_try m now ps of
             (calls, Inl e) \<Rightarrow> (calls, Inl (HTTPException 400 (''Batch prediction failed: '' @ exc_str e)))
           | (calls, Inr out) \<Rightarrow> (calls, Inr out))
      | _ \<Rightarrow> ([], Inl (HTTPException 503 ''Model is not loaded'')))"

section \<open>The training pipeline (dags/train_pipeline.py)\<close>

subsection \<open>Hand-off between stages\<close>

text \<open>
  XCom, keyed by stage id and key. A value is what the pushing stage serialised
  (\<open>df.to_json()\<close>, \<open>json.dumps(metrics)\<close>); reading it back with the matching
  deserialiser returns the value, with any other it raises. \<open>ModelBytes\<close> is the form
  a serialised model would take.
\<close>

datatype xcom_value = DatasetJson dataframe | MetricsJson json | ModelBytes artifact

type_synonym xcom = "string \<times> string \<rightharpoonup> xcom_value"

subsection \<open>Load stage: load_data\<close>

definition dataset_paths :: "string list" where
  "dataset_paths =
     [''/opt/airflow/data/dataset.csv'', ''./data/dataset.csv'',
      ''/data/dataset.csv'', ''../data/dataset.csv'']"

definition shape :: "dataframe \<Rightarrow> nat \<times> nat" where
  "shape df = (length (rows df), length (columns df))"

text \<open>\<open>df.isnull().sum().sum()\<close>: the number of null cells, which the stage only logs.\<close>

definition missing_values :: "dataframe \<Rightarrow> nat" where
  "missing_values df = length (filter (\<lambda>c. c = Null) (concat (rows df)))"

record load_outcome =
  load_xcom :: xcom
  load_return :: "string \<times> nat \<times> nat"
  load_logged_missing :: nat

definition load_data :: "filesystem \<Rightarrow> xcom \<Rightarrow> exn + load_outcome" where
  "load_data fs ti =
     (case first_existing fs dataset_paths of
        None \<Rightarrow> Inl (PyExc ''FileNotFoundError'' ''dataset.csv not found'')
      | Some (data_path, f) \<Rightarrow>
          (case read_csv f of
             Inl e \<Rightarrow> Inl e
           | Inr df \<Rightarrow>
               Inr \<lparr>load_xcom = ti((''load_data'', ''dataset'') \<mapsto> DatasetJson df),
                    load_return = (''success'', shape df),
                    load_logged_missing = missing_values df\<rparr>))"

subsection \<open>Train stage: train_model\<close>

text \<open>
  scikit-learn is not part of the repository. The three operations the stage calls are
  parameters: the splitter (with the \<open>test_size\<close>, \<open>random_state\<close> and \<open>stratify\<close>
  arguments the stage passes), the forest's constructor and \<open>fit\<close> (with
  \<open>n_estimators\<close> and \<open>random_state\<close>), and \<open>accuracy_score\<close>.
\<close>

record sklearn =
  train_test_split ::
    "cell list list \<Rightarrow> cell list \<Rightarrow> real \<Rightarrow> nat \<Rightarrow> cell list
      \<Rightarrow> exn + (cell list list \<times> cell list list \<times> cell list \<times> cell list)"
  RandomForestClassifier_fit :: "nat \<Rightarrow> nat \<Rightarrow> cell list list \<Rightarrow> cell list \<Rightarrow> exn + artifact"
  accuracy_score :: "cell list \<Rightarrow> string list \<Rightarrow> real"

text \<open>\<open>df.drop(c, axis=1)\<close> and \<open>df[c]\<close>: both raise \<open>KeyError\<close> for an unknown column.\<close>

definition drop_column :: "string \<Rightarrow> dataframe \<Rightarrow> exn + dataframe" where
  "drop_column c df =
     (if c \<in> set (columns df)
      then Inr \<lparr>columns = filter (\<lambda>n. n \<noteq> c) (columns df),
                rows = map (\<lambda>r. map snd (filter (\<lambda>(n, v). n \<noteq> c) (zip (columns df) r))) (rows df)\<rparr>
      else Inl (PyExc ''KeyError'' c))"

definition get_column :: "string \<Rightarrow> dataframe \<Rightarrow> exn + cell list" where
  "get_column c df =
     (if c \<in> set (columns df)
      then Inr (map (\<lambda>r. case map_of (zip (columns df) r) c of Some v \<Rightarrow> v | None \<Rightarrow> Null) (rows df))
      else Inl (PyExc ''KeyError'' c))"

text \<open>\<open>y.unique()\<close>: the distinct values in order of first appearance.\<close>

definition unique :: "'a list \<Rightarrow> 'a list" where
  "unique xs = rev (remdups (rev xs))"

text \<open>
  \<open>dict(pairs)\<close>: a key keeps the position of its first insertion and the value of
  its last.
\<close>

fun dict_set :: "('k \<times> 'v) list \<Rightarrow> 'k \<Rightarrow> 'v \<Rightarrow> ('k \<times> 'v) list" where
  "dict_set [] k v = [(k, v)]"
| "dict_set ((k', v') # d) k v = (if k' = k then (k, v) # d else (k', v') # dict_set d k v)"

definition py_dict :: "('k \<times> 'v) list \<Rightarrow> ('k \<times> 'v) list" where
  "py_dict kvs = fold (\<lambda>(k, v) d. dict_set d k v) kvs []"

text \<open>
  \<open>sorted(d.items(), key=lambda x: x[1], reverse=True)\<close>: a stable sort, largest
  value first.
\<close>

definition sorted_by_importance :: "(string \<times> real) list \<Rightarrow> (string \<times> real) list" where
  "sorted_by_importance items = sort_key (\<lambda>(k, v). - v) items"

definition cell_json :: "cell \<Rightarrow> json" where
  "cell_json c = (case c of Null \<Rightarrow> JNull | Num r \<Rightarrow> JNum r | Str s \<Rightarrow> JStr s)"

definition importance_json :: "(string \<times> real) list \<Rightarrow> json" where
  "importance_json items = JObj (map (\<lambda>(k, v). (k, JNum v)) items)"

text \<open>Reading the mapping back from its JSON form.\<close>

fun importance_items :: "json \<Rightarrow> (string \<times> real) list" where
  "importance_items (JObj kvs) =
     concat (map (\<lambda>(k, j). case j of JNum v \<Rightarrow> [(k, v)] | _ \<Rightarrow> []) kvs)"
| "importance_items _ = []"

text \<open>
  The stage calls \<open>joblib.dumps(model)\<close>. joblib provides \<open>dump\<close> and \<open>load\<close> on files
  and has no \<open>dumps\<close>: looking the attribute up raises before anything is serialised.
\<close>

definition joblib_dumps :: "artifact \<Rightarrow> exn + xcom_value" where
  "joblib_dumps model = Inl (PyExc ''AttributeError'' ''module joblib has no attribute dumps'')"

text \<open>
  What a run of the stage leaves: XCom as pushed so far, the importance listing it
  logged, and its return value or the exception it re-raises.
\<close>

record train_outcome =
  train_xcom :: xcom
  train_logged_importance :: "(string \<times> real) list"
  train_result :: "exn + string \<times> real \<times> real"

definition train_failed :: "xcom \<Rightarrow> exn \<Rightarrow> train_outcome" where
  "train_failed ti e = \<lparr>train_xcom = ti, train_logged_importance = [], train_result = Inl e\<rparr>"

definition train_model :: "sklearn \<Rightarrow> xcom \<Rightarrow> train_outcome" where
  "train_model sk ti =
     (case ti (''load_data'', ''dataset'') of
        Some (DatasetJson df) \<Rightarrow>
          (case drop_column ''species'' df of
             Inl e \<Rightarrow> train_failed ti e
           | Inr X \<Rightarrow>
          (case get_column ''species'' df of
             Inl e \<Rightarrow> train_failed ti e
           | Inr y \<Rightarrow>
          (case train_test_split sk (rows X) y (2 / 10) 42 y of
             Inl e \<Rightarrow> train_failed ti e
           | Inr (X_train, X_test, y_train, y_test) \<Rightarrow>
          (case RandomForestClassifier_fit sk 100 42 X_train y_train of
             Inl e \<Rightarrow> train_failed ti e
           | Inr model \<Rightarrow>
          (case model_predict model X_train of
             Inl e \<Rightarrow> train_failed ti e
           | Inr y_pred_train \<Rightarrow>
          (case model_predict model X_test of
             Inl e \<Rightarrow> train_failed ti e
           | Inr y_pred_test \<Rightarrow>
               (let train_accuracy = accuracy_score sk y_train y_pred_train;
                    test_accuracy = accuracy_score sk y_test y_pred_test;
                    feature_importance = py_dict (zip (columns X) (model_feature_importances model));
                    logged = sorted_by_importance feature_importance;
                    metrics = JObj
                      [(''train_accuracy'', JNum train_accuracy),
                       (''test_accuracy'', JNum test_accuracy),
                       (''training_samples'', JNum (real (length X_train))),
                       (''test_samples'', JNum (real (length X_test))),
                       (''features_used'', JArr (map JStr (columns X))),
                       (''classes'', JArr (map cell_json (unique y))),
                       (''feature_importance'', importance_json feature_importance)];
                    ti1 = ti((''train_model'', ''metrics'') \<mapsto> MetricsJson metrics)
                in case joblib_dumps model of
                     Inl e \<Rightarrow>
                       \<lparr>train_xcom = ti1, train_logged_importance = logged, train_result = Inl e\<rparr>
                   | Inr model_bytes \<Rightarrow>
                       \<lparr>train_xcom = ti1((''train_model'', ''model'') \<mapsto> model_bytes),
                        train_logged_importance = logged,
                        train_result = Inr (''success'', train_accuracy, test_accuracy)\<rparr>)))))))
      | _ \<Rightarrow> train_failed ti (PyExc ''ValueError'' ''Invalid file path or buffer object type''))"

subsection \<open>Save stage: save_model\<close>

definition model_dir :: string where
  "model_dir = ''/opt/airflow/models''"

text \<open>\<open>metrics[key]\<close> and \<open>len(x)\<close>, used by the summary the stage logs after writing.\<close>

fun py_index :: "json \<Rightarrow> string \<Rightarrow> exn + json" where
  "py_index (JObj kvs) k = (case map_of kvs k of None \<Rightarrow> Inl (PyExc ''KeyError'' k) | Some v \<Rightarrow> Inr v)"
| "py_index _ k = Inl (PyExc ''TypeError'' ''object is not subscriptable with a string'')"

fun py_len :: "json \<Rightarrow> exn + nat" where
  "py_len (JArr xs) = Inr (length xs)"
| "py_len (JStr s) = Inr (length s)"
| "py_len (JObj kvs) = Inr (length kvs)"
| "py_len _ = Inl (PyExc ''TypeError'' ''object has no len'')"

definition log_saved_metrics :: "json \<Rightarrow> exn + unit" where
  "log_saved_metrics metrics =
     (case py_index metrics ''train_accuracy'' of Inl e \<Rightarrow> Inl e | Inr a \<Rightarrow>
     (case format_4f a of Inl e \<Rightarrow> Inl e | Inr _ \<Rightarrow>
     (case py_index metrics ''test_accuracy'' of Inl e \<Rightarrow> Inl e | Inr b \<Rightarrow>
     (case format_4f b of Inl e \<Rightarrow> Inl e | Inr _ \<Rightarrow>
     (case py_index metrics ''features_used'' of Inl e \<Rightarrow> Inl e | Inr f \<Rightarrow>
     (case py_len f of Inl e \<Rightarrow> Inl e | Inr _ \<Rightarrow>
     (case py_index metrics ''classes'' of Inl e \<Rightarrow> Inl e | Inr c \<Rightarrow>
     (case py_len c of Inl e \<Rightarrow> Inl e | Inr _ \<Rightarrow> Inr ()))))))))"

text \<open>
  The stage calls \<open>joblib.loads(model_bytes)\<close> on what \<open>xcom_pull\<close> returned (\<open>None\<close>
  for a missing key). joblib has no \<open>loads\<close> either: the lookup raises.
\<close>

definition joblib_loads :: "xcom_value option \<Rightarrow> exn + artifact" where
  "joblib_loads model_bytes = Inl (PyExc ''AttributeError'' ''module joblib has no attribute loads'')"

fun json_loads :: "xcom_value option \<Rightarrow> exn + json" where
  "json_loads (Some (MetricsJson j)) = Inr j"
| "json_loads _ = Inl (PyExc ''TypeError'' ''the JSON object must be str, bytes or bytearray'')"

text \<open>
  \<open>save_model\<close>, as the file writes it performs, in order, and how it ends. Both XCom
  values are read and deserialised before the first write; \<open>joblib.dump\<close> writes the
  artifact, then \<open>json.dump\<close> writes the sidecar, then the summary is logged.
\<close>

definition save_model ::
  "xcom \<Rightarrow> (string \<times> file_content) list \<times> (exn + string \<times> string \<times> string)" where
  "save_model ti =
     (case joblib_loads (ti (''train_model'', ''model'')) of
        Inl e \<Rightarrow> ([], Inl e)
      | Inr model \<Rightarrow>
          (case json_loads (ti (''train_model'', ''metrics'')) of
             Inl e \<Rightarrow> ([], Inl e)
           | Inr metrics \<Rightarrow>
               (let model_path = model_dir @ ''/model.pkl'';
                    metrics_path = model_dir @ ''/metrics.json'';
                    writes = [(model_path, PickleFile (Some model)), (metrics_path, JsonFile metrics)]
                in case log_saved_metrics metrics of
                     Inl e \<Rightarrow> (writes, Inl e)
                   | Inr _ \<Rightarrow> (writes, Inr (''success'', model_path, metrics_path)))))"

section \<open>Concrete inputs\<close>

text \<open>An artifact that labels every row \<open>setosa\<close> with the same distribution.\<close>

definition constant_artifact :: artifact where
  "constant_artifact =
     \<lparr>model_predict = (\<lambda>X. Inr (map (\<lambda>r. ''setosa'') X)),
      model_predict_proba = (\<lambda>X. Inr (map (\<lambda>r. [8 / 10, 15 / 100, 5 / 100]) X)),
      model_feature_importances = [10 / 100, 5 / 100, 45 / 100, 40 / 100]\<rparr>"

text \<open>
  The same artifact, except that it rejects an array with no rows, as an estimator
  that demands a two-dimensional input does: \<open>np.array([])\<close> has one dimension.
\<close>

definition strict_artifact :: artifact where
  "strict_artifact =
     \<lparr>model_predict =
        (\<lambda>X. if X = [] then Inl (PyExc ''ValueError'' ''Expected 2D array, got 1D array instead'')
              else Inr (map (\<lambda>r. ''setosa'') X)),
      model_predict_proba =
        (\<lambda>X. if X = [] then Inl (PyExc ''ValueError'' ''Expected 2D array, got 1D array instead'')
              else Inr (map (\<lambda>r. [8 / 10, 15 / 100, 5 / 100]) X)),
      model_feature_importances = [10 / 100, 5 / 100, 45 / 100, 40 / 100]\<rparr>"

definition serving :: "artifact \<Rightarrow> server_state" where
  "serving m = \<lparr>MODEL = Some m, MODEL_METADATA = JNull, MODEL_LOADED = True\<rparr>"

definition sample_input :: PredictionInput where
  "sample_input =
     \<lparr>sepal_length = 51 / 10, sepal_width = 35 / 10, petal_length = 14 / 10, petal_width = 2 / 10\<rparr>"

definition zero_input :: PredictionInput where
  "zero_input = \<lparr>sepal_length = 0, sepal_width = 0, petal_length = 0, petal_width = 0\<rparr>"

text \<open>
  A store whose sidecar is not JSON: the artifact is unpickled, then \<open>json.load\<close>
  raises.
\<close>

definition unreadable_sidecar_fs :: filesystem where
  "unreadable_sidecar_fs =
     [''models/model.pkl'' \<mapsto> PickleFile (Some constant_artifact),
      ''models/metrics.json'' \<mapsto> OtherFile]"

text \<open>A validator that coerces nothing.\<close>

definition no_coercion :: pydantic where
  "no_coercion = \<lparr>str_from_other = (\<lambda>j. None), float_from_other = (\<lambda>j. None)\<rparr>"

text \<open>A store that holds the artifact and no sidecar.\<close>

definition artifact_only_fs :: filesystem where
  "artifact_only_fs = [''/opt/airflow/models/model.pkl'' \<mapsto> PickleFile (Some constant_artifact)]"

text \<open>
  An artifact that reads its rows: the label and the distribution of a row follow from
  its petal length and petal width, and a row that is not four numbers is refused.
\<close>

fun petal_rule :: "cell list \<Rightarrow> (string \<times> real list) option" where
  "petal_rule [Num sl, Num sw, Num pl, Num pw] =
     Some (if pl < 5 / 2 then (''setosa'', [9 / 10, 1 / 10, 0])
           else if pw < 9 / 5 then (''versicolor'', [1 / 20, 17 / 20, 1 / 10])
           else (''virginica'', [0, 1 / 5, 4 / 5]))"
| "petal_rule row = None"

fun answer_rows :: "cell list list \<Rightarrow> exn + (string \<times> real list) list" where
  "answer_rows [] = Inr []"
| "answer_rows (r # rs) =
     (case petal_rule r of
        None \<Rightarrow> Inl (PyExc ''ValueError'' ''X has the wrong number of features'')
      | Some a \<Rightarrow> (case answer_rows rs of Inl e \<Rightarrow> Inl e | Inr as \<Rightarrow> Inr (a # as)))"

definition petal_rule_artifact :: artifact where
  "petal_rule_artifact =
     \<lparr>model_predict = (\<lambda>X. map_sum id (map fst) (answer_rows X)),
      model_predict_proba = (\<lambda>X. map_sum id (map snd) (answer_rows X)),
      model_feature_importances = [10 / 100, 5 / 100, 45 / 100, 40 / 100]\<rparr>"

text \<open>The same rule, answering only the first row of the array it is given.\<close>

definition first_row_artifact :: artifact where
  "first_row_artifact =
     \<lparr>model_predict = (\<lambda>X. map_sum id (map fst) (answer_rows (take 1 X))),
      model_predict_proba = (\<lambda>X. map_sum id (map snd) (answer_rows (take 1 X))),
      model_feature_importances = [10 / 100, 5 / 100, 45 / 100, 40 / 100]\<rparr>"

definition virginica_input :: PredictionInput where
  "virginica_input =
     \<lparr>sepal_length = 63 / 10, sepal_width = 33 / 10, petal_length = 6, petal_width = 25 / 10\<rparr>"

text \<open>Datasets: three complete rows; one row with an empty cell; a header with no rows.\<close>

definition iris_columns :: "string list" where
  "iris_columns = [''sepal_length'', ''sepal_width'', ''petal_length'', ''petal_width'', ''species'']"

definition small_dataset :: dataframe where
  "small_dataset =
     \<lparr>columns = iris_columns,
      rows = [[Num (51 / 10), Num (35 / 10), Num (14 / 10), Num (2 / 10), Str ''setosa''],
              [Num 7, Num (32 / 10), Num (47 / 10), Num (14 / 10), Str ''versicolor''],
              [Num (63 / 10), Num (33 / 10), Num 6, Num (25 / 10), Str ''virginica'']]\<rparr>"

definition null_cell_dataset :: dataframe where
  "null_cell_dataset =
     \<lparr>columns = iris_columns,
      rows = [[Num (51 / 10), Null, Num (14 / 10), Num (2 / 10), Str ''setosa'']]\<rparr>"

definition header_only_dataset :: dataframe where
  "header_only_dataset = \<lparr>columns = iris_columns, rows = []\<rparr>"

definition dataset_fs :: "dataframe \<Rightarrow> filesystem" where
  "dataset_fs df = [''/opt/airflow/data/dataset.csv'' \<mapsto> CsvFile df]"






section \<open>Properties of the server\<close>

lemma loaded_cases:
  "loaded s \<longleftrightarrow> (\<exists>m. MODEL_LOADED s \<and> MODEL s = Some m)"
  by (auto simp: loaded_def)

lemma np_max_Inr: "np_max xs = Inr c \<longleftrightarrow> xs \<noteq> [] \<and> c = Max (set xs)"
proof (cases xs)
  case Nil
  then show ?thesis by simp
next
  case (Cons a list)
  have "fold max list a = Max (set (a # list))"
    by (rule Max.set_eq_fold [symmetric])
  with Cons show ?thesis by auto
qed

lemma np_max_Max: "xs \<noteq> [] \<Longrightarrow> np_max xs = Inr (Max (set xs))"
  by (simp add: np_max_Inr)

subsection \<open>The ordered existence probe\<close>

lemma first_existing_None: "first_existing fs ps = None \<longleftrightarrow> (\<forall>p \<in> set ps. fs p = None)"
  by (induction ps) (auto split: option.splits)

lemma first_existing_Some:
  "first_existing fs ps = Some (p, f) \<Longrightarrow> p \<in> set ps \<and> fs p = Some f"
  by (induction ps) (auto split: option.splits)

lemma first_existing_skip:
  "\<forall>q \<in> set pre. fs q = None \<Longrightarrow> fs p = Some f \<Longrightarrow>
   first_existing fs (pre @ p # post) = Some (p, f)"
  by (induction pre) auto

lemma first_existing_update:
  "q \<notin> set ps \<Longrightarrow> first_existing (fs(q \<mapsto> x)) ps = first_existing fs ps"
  by (induction ps) (auto split: option.splits)

lemma sidecar_of_candidate:
  assumes "p \<in> set possible_paths"
  shows "dirname p @ ''/metrics.json'' \<notin> set possible_paths"
  using assms by (auto simp: possible_paths_def dirname_def)

subsection \<open>Rejection while no model is loaded\<close>

text \<open>
  Claim C1. A request to \<open>/predict\<close> or \<open>/predict-batch\<close> that arrives while the guard
  \<open>MODEL_LOADED and MODEL is not None\<close> is false ends in the 503 response and makes no
  call on the artifact (the call list is empty), even when an artifact object is held.
  The signal is distinct: once the guard holds, neither endpoint ever answers 503.
\<close>

theorem inference_rejected_unless_loaded:
  "(\<not> loaded s \<longrightarrow>
      predict s now x = ([], Inl (HTTPException 503 ''Model is not loaded. Please check server logs.''))
    \<and> predict_batch s now xs = ([], Inl (HTTPException 503 ''Model is not loaded'')))
   \<and> (loaded s \<longrightarrow>
      (\<forall>d. snd (predict s now x) \<noteq> Inl (HTTPException 503 d))
    \<and> (\<forall>d. snd (predict_batch s now xs) \<noteq> Inl (HTTPException 503 d)))"
proof (intro conjI impI)
  assume n: "\<not> loaded s"
  show "predict s now x = ([], Inl (HTTPException 503 ''Model is not loaded. Please check server logs.''))"
    using n by (auto simp: loaded_def predict_def split: option.splits bool.splits)
  show "predict_batch s now xs = ([], Inl (HTTPException 503 ''Model is not loaded''))"
    using n by (auto simp: loaded_def predict_batch_def split: option.splits bool.splits)
next
  assume l: "loaded s"
  then obtain m where m: "MODEL_LOADED s" "MODEL s = Some m" by (auto simp: loaded_def)
  show "\<forall>d. snd (predict s now x) \<noteq> Inl (HTTPException 503 d)"
    using m by (auto simp: predict_def split: prod.splits sum.splits)
  show "\<forall>d. snd (predict_batch s now xs) \<noteq> Inl (HTTPException 503 d)"
    using m by (auto simp: predict_batch_def split: prod.splits sum.splits)
qed

text \<open>
  At a start-up that found the artifact but could not read its sidecar, the artifact is
  held and the flag is off: both endpoints answer 503 without touching it. With the
  flag on, the same requests are served.
\<close>

theorem inference_rejected_unless_loaded_witness:
  "MODEL (load_model unreadable_sidecar_fs initial_state) = Some constant_artifact
   \<and> \<not> loaded (load_model unreadable_sidecar_fs initial_state)
   \<and> predict (load_model unreadable_sidecar_fs initial_state) ''2026-01-01T00:00:00'' sample_input =
       ([], Inl (HTTPException 503 ''Model is not loaded. Please check server logs.''))
   \<and> predict_batch (load_model unreadable_sidecar_fs initial_state) ''2026-01-01T00:00:00'' [sample_input] =
       ([], Inl (HTTPException 503 ''Model is not loaded''))
   \<and> loaded (serving constant_artifact)
   \<and> snd (predict (serving constant_artifact) ''2026-01-01T00:00:00'' sample_input) \<noteq>
       Inl (HTTPException 503 ''Model is not loaded. Please check server logs.'')
   \<and> snd (predict_batch (serving constant_artifact) ''2026-01-01T00:00:00'' [sample_input]) \<noteq>
       Inl (HTTPException 503 ''Model is not loaded'')"
proof -
  have s: "load_model unreadable_sidecar_fs initial_state =
      \<lparr>MODEL = Some constant_artifact, MODEL_METADATA = JNull, MODEL_LOADED = False\<rparr>"
    by (simp add: load_model_def unreadable_sidecar_fs_def possible_paths_def initial_state_def
        dirname_def)
  have n: "\<not> loaded (load_model unreadable_sidecar_fs initial_state)"
    by (simp add: s loaded_def)
  have l: "loaded (serving constant_artifact)"
    by (simp add: serving_def loaded_def)
  show ?thesis
    using n l s
      inference_rejected_unless_loaded
        [where s = "load_model unreadable_sidecar_fs initial_state"
           and now = "''2026-01-01T00:00:00''" and x = sample_input and xs = "[sample_input]"]
      inference_rejected_unless_loaded
        [where s = "serving constant_artifact"
           and now = "''2026-01-01T00:00:00''" and x = sample_input and xs = "[sample_input]"]
    by simp
qed

subsection \<open>Health\<close>

lemma health_check_reports:
  "\<exists>r. health_check s now = Inr r
     \<and> (status r = ''healthy'' \<longleftrightarrow> loaded s)
     \<and> (status r = ''unhealthy'' \<longleftrightarrow> \<not> loaded s)
     \<and> model_loaded r = MODEL_LOADED s"
  by (simp add: health_check_def loaded_def)

text \<open>
  Claim C6. The health query always returns a body, and its status is \<open>healthy\<close>
  exactly when the guard holds (\<open>health_check_reports\<close>). Its \<open>model_loaded\<close> field,
  however, echoes the flag alone. When the artifact file unpickles to \<open>None\<close>, start-up
  sets the flag with no model held, and the health body then says \<open>unhealthy\<close>, "model
  is not loaded" and \<open>model_loaded = True\<close> at once, where the claim requires
  \<open>model_loaded = False\<close> in every state that is not Loaded.
\<close>

theorem health_check_flag_without_model:
  "load_model [''models/model.pkl'' \<mapsto> PickleFile None] initial_state =
     \<lparr>MODEL = None, MODEL_METADATA = JNull, MODEL_LOADED = True\<rparr>
   \<and> health_check \<lparr>MODEL = None, MODEL_METADATA = JNull, MODEL_LOADED = True\<rparr> now =
     Inr \<lparr>status = ''unhealthy'', model_loaded = True, model_version = None, timestamp = now,
          message = ''API is running but model is not loaded''\<rparr>"
  by (simp add: load_model_def possible_paths_def initial_state_def dirname_def health_check_def)

subsection \<open>Single prediction\<close>

text \<open>
  Claim C7. When the guard holds, \<open>/predict\<close> hands the artifact the one-row array of
  the request's four features, in the order sepal length, sepal width, petal length,
  petal width. A served call returns the first label of the artifact's answer and, as
  confidence, the maximum of the first row of its per-class distribution for that
  array. The body is that label, that maximum, the echoed request, the version and the
  time: nothing else of the distribution reaches it. A call that is not served ends in
  the 400 response.
\<close>

theorem predict_confidence_is_max:
  assumes "MODEL_LOADED s" and "MODEL s = Some m"
  shows "case predict s now x of
           (calls, Inr out) \<Rightarrow>
             (\<exists>label labels proba probas.
                 model_predict m
                   [[Num (sepal_length x), Num (sepal_width x), Num (petal_length x), Num (petal_width x)]] =
                   Inr (label # labels)
               \<and> model_predict_proba m
                   [[Num (sepal_length x), Num (sepal_width x), Num (petal_length x), Num (petal_width x)]] =
                   Inr (proba # probas)
               \<and> proba \<noteq> []
               \<and> calls =
                   [Predict [[Num (sepal_length x), Num (sepal_width x), Num (petal_length x), Num (petal_width x)]],
                    PredictProba [[Num (sepal_length x), Num (sepal_width x), Num (petal_length x), Num (petal_width x)]]]
               \<and> out = \<lparr>prediction = label, confidence = Max (set proba),
                         input_features =
                           [(''sepal_length'', sepal_length x), (''sepal_width'', sepal_width x),
                            (''petal_length'', petal_length x), (''petal_width'', petal_width x)],
                         output_model_version = ''1.0.0'', output_timestamp = now\<rparr>)
         | (calls, Inl e) \<Rightarrow> (\<exists>d. e = HTTPException 400 d)"
  using assms unfolding predict_def predict_try_def Let_def feature_row_def echo_features_def
  by (auto split: sum.splits list.splits simp: np_max_Inr)

lemmas petal_rule_defs =
  petal_rule_artifact_def serving_def sample_input_def virginica_input_def zero_input_def

theorem predict_confidence_is_max_witness:
  "predict (serving petal_rule_artifact) ''2026-01-01T00:00:00'' sample_input =
     ([Predict [[Num (51 / 10), Num (35 / 10), Num (14 / 10), Num (2 / 10)]],
       PredictProba [[Num (51 / 10), Num (35 / 10), Num (14 / 10), Num (2 / 10)]]],
      Inr \<lparr>prediction = ''setosa'', confidence = 9 / 10,
           input_features =
             [(''sepal_length'', 51 / 10), (''sepal_width'', 35 / 10),
              (''petal_length'', 14 / 10), (''petal_width'', 2 / 10)],
           output_model_version = ''1.0.0'', output_timestamp = ''2026-01-01T00:00:00''\<rparr>)
   \<and> predict (serving petal_rule_artifact) ''2026-01-01T00:00:00'' virginica_input =
     ([Predict [[Num (63 / 10), Num (33 / 10), Num 6, Num (25 / 10)]],
       PredictProba [[Num (63 / 10), Num (33 / 10), Num 6, Num (25 / 10)]]],
      Inr \<lparr>prediction = ''virginica'', confidence = 4 / 5,
           input_features =
             [(''sepal_length'', 63 / 10), (''sepal_width'', 33 / 10),
              (''petal_length'', 6), (''petal_width'', 25 / 10)],
           output_model_version = ''1.0.0'', output_timestamp = ''2026-01-01T00:00:00''\<rparr>)
   \<and> model_predict_proba petal_rule_artifact [[Num (51 / 10), Num (35 / 10), Num (14 / 10), Num (2 / 10)]] =
       Inr [[9 / 10, 1 / 10, 0]]
   \<and> model_predict_proba petal_rule_artifact [[Num (63 / 10), Num (33 / 10), Num 6, Num (25 / 10)]] =
       Inr [[0, 1 / 5, 4 / 5]]"
proof -
  have l: "MODEL_LOADED (serving petal_rule_artifact)"
    "MODEL (serving petal_rule_artifact) = Some petal_rule_artifact"
    by (simp_all add: serving_def)
  have p1: "model_predict petal_rule_artifact [[Num (51 / 10), Num (35 / 10), Num (14 / 10), Num (2 / 10)]] =
       Inr [''setosa'']"
    and q1: "model_predict_proba petal_rule_artifact [[Num (51 / 10), Num (35 / 10), Num (14 / 10), Num (2 / 10)]] =
       Inr [[9 / 10, 1 / 10, 0]]"
    and p2: "model_predict petal_rule_artifact [[Num (63 / 10), Num (33 / 10), Num 6, Num (25 / 10)]] =
       Inr [''virginica'']"
    and q2: "model_predict_proba petal_rule_artifact [[Num (63 / 10), Num (33 / 10), Num 6, Num (25 / 10)]] =
       Inr [[0, 1 / 5, 4 / 5]]"
    by (simp_all add: petal_rule_artifact_def)
  have m: "Max (set [9 / 10, 1 / 10, 0 :: real]) = 9 / 10" "Max (set [0, 1 / 5, 4 / 5 :: real]) = 4 / 5"
    by simp_all
  from predict_confidence_is_max [OF l, where now = "''2026-01-01T00:00:00''" and x = sample_input]
  have a: "predict (serving petal_rule_artifact) ''2026-01-01T00:00:00'' sample_input =
     ([Predict [[Num (51 / 10), Num (35 / 10), Num (14 / 10), Num (2 / 10)]],
       PredictProba [[Num (51 / 10), Num (35 / 10), Num (14 / 10), Num (2 / 10)]]],
      Inr \<lparr>prediction = ''setosa'', confidence = 9 / 10,
           input_features =
             [(''sepal_length'', 51 / 10), (''sepal_width'', 35 / 10),
              (''petal_length'', 14 / 10), (''petal_width'', 2 / 10)],
           output_model_version = ''1.0.0'', output_timestamp = ''2026-01-01T00:00:00''\<rparr>)"
    by (simp add: petal_rule_defs predict_def predict_try_def feature_row_def echo_features_def Let_def)
  from predict_confidence_is_max [OF l, where now = "''2026-01-01T00:00:00''" and x = virginica_input]
  have b: "predict (serving petal_rule_artifact) ''2026-01-01T00:00:00'' virginica_input =
     ([Predict [[Num (63 / 10), Num (33 / 10), Num 6, Num (25 / 10)]],
       PredictProba [[Num (63 / 10), Num (33 / 10), Num 6, Num (25 / 10)]]],
      Inr \<lparr>prediction = ''virginica'', confidence = 4 / 5,
           input_features =
             [(''sepal_length'', 63 / 10), (''sepal_width'', 33 / 10),
              (''petal_length'', 6), (''petal_width'', 25 / 10)],
           output_model_version = ''1.0.0'', output_timestamp = ''2026-01-01T00:00:00''\<rparr>)"
    by (simp add: petal_rule_defs predict_def predict_try_def feature_row_def echo_features_def Let_def)
  from a b q1 q2 show ?thesis by simp
qed

subsection \<open>Batch prediction\<close>

lemma batch_results_ok:
  "length ys = length qs \<Longrightarrow> i + length ys \<le> length ps \<Longrightarrow> [] \<notin> set qs \<Longrightarrow>
   \<exists>rs. batch_results ps i (zip ys qs) = Inr rs \<and> length rs = length ys \<and>
     (\<forall>j < length ys. rs ! j = \<lparr>index = i + j, item_prediction = ys ! j,
         item_confidence = Max (set (qs ! j)), item_input_features = echo_features (ps ! (i + j))\<rparr>)"
proof (induction ys arbitrary: qs i)
  case Nil
  then show ?case by simp
next
  case (Cons y ys)
  then obtain q qs' where qs: "qs = q # qs'" by (cases qs) auto
  from Cons.prems qs have q: "q \<noteq> []" and len: "length ys = length qs'"
    and bound: "Suc i + length ys \<le> length ps" and rest: "[] \<notin> set qs'"
    by auto
  from Cons.IH [OF len bound rest] obtain rs where
    rs: "batch_results ps (Suc i) (zip ys qs') = Inr rs" "length rs = length ys"
    "\<forall>j < length ys. rs ! j = \<lparr>index = Suc i + j, item_prediction = ys ! j,
         item_confidence = Max (set (qs' ! j)), item_input_features = echo_features (ps ! (Suc i + j))\<rparr>"
    by blast
  from bound have i: "i < length ps" by simp
  have "batch_results ps i (zip (y # ys) qs) =
      Inr (\<lparr>index = i, item_prediction = y, item_confidence = Max (set q),
            item_input_features = echo_features (ps ! i)\<rparr> # rs)"
    using qs q i rs(1) by (simp add: np_max_Max)
  moreover have "\<forall>j < length (y # ys).
      (\<lparr>index = i, item_prediction = y, item_confidence = Max (set q),
            item_input_features = echo_features (ps ! i)\<rparr> # rs) ! j =
      \<lparr>index = i + j, item_prediction = (y # ys) ! j,
         item_confidence = Max (set (qs ! j)), item_input_features = echo_features (ps ! (i + j))\<rparr>"
  proof (intro allI impI)
    fix j assume "j < length (y # ys)"
    then show "(\<lparr>index = i, item_prediction = y, item_confidence = Max (set q),
            item_input_features = echo_features (ps ! i)\<rparr> # rs) ! j =
      \<lparr>index = i + j, item_prediction = (y # ys) ! j,
         item_confidence = Max (set (qs ! j)), item_input_features = echo_features (ps ! (i + j))\<rparr>"
      using rs(3) qs by (cases j) simp_all
  qed
  ultimately show ?case using rs(2) by simp
qed

lemma batch_results_fails:
  "[] \<in> snd ` set yqs \<Longrightarrow> \<exists>e. batch_results ps i yqs = Inl e"
proof (induction yqs arbitrary: i)
  case Nil
  then show ?case by simp
next
  case (Cons a yqs)
  obtain y q where a: "a = (y, q)" by (cases a)
  show ?case
  proof (cases "q = []")
    case True
    with a show ?thesis by simp
  next
    case False
    with Cons.prems a have "[] \<in> snd ` set yqs" by auto
    from Cons.IH [OF this] obtain e where "batch_results ps (Suc i) yqs = Inl e" by blast
    with a show ?thesis by (auto split: sum.splits)
  qed
qed

lemma predict_batch_outcome:
  assumes "MODEL_LOADED s" and "MODEL s = Some m"
    and "\<forall>ys. model_predict m (map feature_row ps) = Inr ys \<longrightarrow> length ys = length ps"
    and "\<forall>qs. model_predict_proba m (map feature_row ps) = Inr qs \<longrightarrow> length qs = length ps"
  shows "case snd (predict_batch s now ps) of
           Inr out \<Rightarrow>
             (\<exists>ys qs. model_predict m (map feature_row ps) = Inr ys
               \<and> model_predict_proba m (map feature_row ps) = Inr qs
               \<and> [] \<notin> set qs
               \<and> total_samples out = length ps
               \<and> length (predictions out) = length ps
               \<and> (\<forall>i < length ps. predictions out ! i =
                     \<lparr>index = i, item_prediction = ys ! i, item_confidence = Max (set (qs ! i)),
                      item_input_features = echo_features (ps ! i)\<rparr>))
         | Inl e \<Rightarrow>
             (\<exists>d. e = HTTPException 400 d)
             \<and> ((\<exists>e'. model_predict m (map feature_row ps) = Inl e')
               \<or> (\<exists>e'. model_predict_proba m (map feature_row ps) = Inl e')
               \<or> (\<exists>qs. model_predict_proba m (map feature_row ps) = Inr qs \<and> [] \<in> set qs))"
proof (cases "model_predict m (map feature_row ps)")
  case (Inl e)
  then show ?thesis
    using assms(1,2) by (simp add: predict_batch_def predict_batch_try_def Let_def)
next
  case ys: (Inr ys)
  show ?thesis
  proof (cases "model_predict_proba m (map feature_row ps)")
    case (Inl e)
    then show ?thesis
      using assms(1,2) ys by (simp add: predict_batch_def predict_batch_try_def Let_def)
  next
    case qs: (Inr qs)
    from assms(3) ys have ly: "length ys = length ps" by simp
    from assms(4) qs have lq: "length qs = length ps" by simp
    show ?thesis
    proof (cases "[] \<in> set qs")
      case True
      from ly lq have "map snd (zip ys qs) = qs" by simp
      then have "snd ` set (zip ys qs) = set qs" by (metis set_map)
      with True have "[] \<in> snd ` set (zip ys qs)" by simp
      from batch_results_fails [OF this] obtain e where
        "batch_results ps 0 (zip ys qs) = Inl e" by blast
      then show ?thesis
        using assms(1,2) ys qs True by (simp add: predict_batch_def predict_batch_try_def Let_def)
    next
      case False
      from ly lq have "length ys = length qs" "0 + length ys \<le> length ps" by simp_all
      from batch_results_ok [OF this False] obtain rs where
        rs: "batch_results ps 0 (zip ys qs) = Inr rs" "length rs = length ys"
          "\<forall>j < length ys. rs ! j = \<lparr>index = 0 + j, item_prediction = ys ! j,
             item_confidence = Max (set (qs ! j)), item_input_features = echo_features (ps ! (0 + j))\<rparr>"
        by blast
      then show ?thesis
        using assms(1,2) ys qs False ly by (simp add: predict_batch_def predict_batch_try_def Let_def)
    qed
  qed
qed

text \<open>
  Claim C5, as amended. With the guard holding, \<open>/predict-batch\<close> hands the artifact
  one row of four features per request element. Provided the artifact answers with one
  label and one distribution per row, the call either returns one result per request
  element, in request order, the result at index \<open>i\<close> carrying \<open>i\<close>, the label and
  maximum of row \<open>i\<close> and the four features of request \<open>i\<close>; or the whole call ends
  in the 400 response, which happens exactly when \<open>predict\<close> raises, \<open>predict_proba\<close>
  raises or some row has no maximum. There is no partial result.
\<close>

theorem predict_batch_one_result_per_input:
  assumes "MODEL_LOADED s" and "MODEL s = Some m"
    and "\<forall>ys. model_predict m (map (\<lambda>p. [Num (sepal_length p), Num (sepal_width p), Num (petal_length p), Num (petal_width p)]) ps) = Inr ys \<longrightarrow> length ys = length ps"
    and "\<forall>qs. model_predict_proba m (map (\<lambda>p. [Num (sepal_length p), Num (sepal_width p), Num (petal_length p), Num (petal_width p)]) ps) = Inr qs \<longrightarrow> length qs = length ps"
  shows "case snd (predict_batch s now ps) of
           Inr out \<Rightarrow>
             (\<exists>ys qs. model_predict m (map (\<lambda>p. [Num (sepal_length p), Num (sepal_width p), Num (petal_length p), Num (petal_width p)]) ps) = Inr ys
               \<and> model_predict_proba m (map (\<lambda>p. [Num (sepal_length p), Num (sepal_width p), Num (petal_length p), Num (petal_width p)]) ps) = Inr qs
               \<and> [] \<notin> set qs
               \<and> total_samples out = length ps
               \<and> length (predictions out) = length ps
               \<and> (\<forall>i < length ps. predictions out ! i =
                     \<lparr>index = i, item_prediction = ys ! i, item_confidence = Max (set (qs ! i)),
                      item_input_features =
                        [(''sepal_length'', sepal_length (ps ! i)), (''sepal_width'', sepal_width (ps ! i)),
                         (''petal_length'', petal_length (ps ! i)), (''petal_width'', petal_width (ps ! i))]\<rparr>))
         | Inl e \<Rightarrow>
             (\<exists>d. e = HTTPException 400 d)
             \<and> ((\<exists>e'. model_predict m (map (\<lambda>p. [Num (sepal_length p), Num (sepal_width p), Num (petal_length p), Num (petal_width p)]) ps) = Inl e')
               \<or> (\<exists>e'. model_predict_proba m (map (\<lambda>p. [Num (sepal_length p), Num (sepal_width p), Num (petal_length p), Num (petal_width p)]) ps) = Inl e')
               \<or> (\<exists>qs. model_predict_proba m (map (\<lambda>p. [Num (sepal_length p), Num (sepal_width p), Num (petal_length p), Num (petal_width p)]) ps) = Inr qs \<and> [] \<in> set qs))"
proof -
  have fm: "map feature_row ps = (map (\<lambda>p. [Num (sepal_length p), Num (sepal_width p), Num (petal_length p), Num (petal_width p)]) ps)"
    by (simp add: feature_row_def)
  have echo: "\<And>p. echo_features p =
      [(''sepal_length'', sepal_length p), (''sepal_width'', sepal_width p),
       (''petal_length'', petal_length p), (''petal_width'', petal_width p)]"
    by (simp add: echo_features_def)
  from assms(3,4) have shape:
    "\<forall>ys. model_predict m (map feature_row ps) = Inr ys \<longrightarrow> length ys = length ps"
    "\<forall>qs. model_predict_proba m (map feature_row ps) = Inr qs \<longrightarrow> length qs = length ps"
    unfolding fm by simp_all
  from predict_batch_outcome [OF assms(1,2) shape, of now]
  show ?thesis unfolding fm echo .
qed

theorem predict_batch_one_result_per_input_witness:
  "predict_batch (serving petal_rule_artifact) ''2026-01-01T00:00:00''
     [sample_input, zero_input, virginica_input] =
     ([Predict [[Num (51 / 10), Num (35 / 10), Num (14 / 10), Num (2 / 10)],
                [Num 0, Num 0, Num 0, Num 0],
                [Num (63 / 10), Num (33 / 10), Num 6, Num (25 / 10)]],
       PredictProba [[Num (51 / 10), Num (35 / 10), Num (14 / 10), Num (2 / 10)],
                     [Num 0, Num 0, Num 0, Num 0],
                     [Num (63 / 10), Num (33 / 10), Num 6, Num (25 / 10)]]],
      Inr \<lparr>total_samples = 3,
           predictions =
             [\<lparr>index = 0, item_prediction = ''setosa'', item_confidence = 9 / 10,
               item_input_features =
                 [(''sepal_length'', 51 / 10), (''sepal_width'', 35 / 10),
                  (''petal_length'', 14 / 10), (''petal_width'', 2 / 10)]\<rparr>,
              \<lparr>index = 1, item_prediction = ''setosa'', item_confidence = 9 / 10,
               item_input_features =
                 [(''sepal_length'', 0), (''sepal_width'', 0),
                  (''petal_length'', 0), (''petal_width'', 0)]\<rparr>,
              \<lparr>index = 2, item_prediction = ''virginica'', item_confidence = 4 / 5,
               item_input_features =
                 [(''sepal_length'', 63 / 10), (''sepal_width'', 33 / 10),
                  (''petal_length'', 6), (''petal_width'', 25 / 10)]\<rparr>],
           batch_timestamp = ''2026-01-01T00:00:00''\<rparr>)"
proof -
  have l: "MODEL_LOADED (serving petal_rule_artifact)"
    "MODEL (serving petal_rule_artifact) = Some petal_rule_artifact"
    by (simp_all add: serving_def)
  let ?ps = "[sample_input, zero_input, virginica_input]"
  have h1: "\<forall>ys. model_predict petal_rule_artifact
        (map (\<lambda>p. [Num (sepal_length p), Num (sepal_width p), Num (petal_length p), Num (petal_width p)]) ?ps) =
        Inr ys \<longrightarrow> length ys = length ?ps"
    by (auto simp: petal_rule_defs)
  have h2: "\<forall>qs. model_predict_proba petal_rule_artifact
        (map (\<lambda>p. [Num (sepal_length p), Num (sepal_width p), Num (petal_length p), Num (petal_width p)]) ?ps) =
        Inr qs \<longrightarrow> length qs = length ?ps"
    by (auto simp: petal_rule_defs)
  from predict_batch_one_result_per_input [OF l h1 h2, of "''2026-01-01T00:00:00''"]
  show ?thesis
    by (simp add: petal_rule_defs predict_batch_def predict_batch_try_def feature_row_def
        echo_features_def Let_def)
qed

text \<open>
  An artifact that answers only the first row: the two outputs are paired by \<open>zip\<close>
  and their lengths are never compared, so two requests yield one result, with
  \<open>total_samples = 2\<close> and no error.
\<close>

theorem predict_batch_one_result_per_input_counterexample:
  "predict_batch (serving first_row_artifact) ''2026-01-01T00:00:00'' [sample_input, virginica_input] =
     ([Predict [[Num (51 / 10), Num (35 / 10), Num (14 / 10), Num (2 / 10)],
                [Num (63 / 10), Num (33 / 10), Num 6, Num (25 / 10)]],
       PredictProba [[Num (51 / 10), Num (35 / 10), Num (14 / 10), Num (2 / 10)],
                     [Num (63 / 10), Num (33 / 10), Num 6, Num (25 / 10)]]],
      Inr \<lparr>total_samples = 2,
           predictions =
             [\<lparr>index = 0, item_prediction = ''setosa'', item_confidence = 9 / 10,
               item_input_features =
                 [(''sepal_length'', 51 / 10), (''sepal_width'', 35 / 10),
                  (''petal_length'', 14 / 10), (''petal_width'', 2 / 10)]\<rparr>],
           batch_timestamp = ''2026-01-01T00:00:00''\<rparr>)"
  by (simp add: first_row_artifact_def serving_def sample_input_def virginica_input_def
      predict_batch_def predict_batch_try_def feature_row_def echo_features_def Let_def)

text \<open>
  Claim C9, as amended. With the guard holding, an empty request list is handed to the
  artifact like any other. If both operations answer it with no rows, the result is
  the empty list with \<open>total_samples = 0\<close>; if one of them raises on it, the call ends
  in the 400 response.
\<close>

theorem predict_batch_empty:
  assumes "MODEL_LOADED s" and "MODEL s = Some m"
  shows "(model_predict m [] = Inr [] \<and> model_predict_proba m [] = Inr [] \<longrightarrow>
            predict_batch s now [] =
              ([Predict [], PredictProba []],
               Inr \<lparr>total_samples = 0, predictions = [], batch_timestamp = now\<rparr>))
       \<and> (\<forall>e. model_predict m [] = Inl e \<longrightarrow>
            predict_batch s now [] =
              ([Predict []], Inl (HTTPException 400 (''Batch prediction failed: '' @ exc_str e))))
       \<and> (\<forall>ys e. model_predict m [] = Inr ys \<and> model_predict_proba m [] = Inl e \<longrightarrow>
            predict_batch s now [] =
              ([Predict [], PredictProba []],
               Inl (HTTPException 400 (''Batch prediction failed: '' @ exc_str e))))"
  using assms by (simp add: predict_batch_def predict_batch_try_def Let_def)

text \<open>
  An artifact that rejects an array without rows: the empty batch is answered with 400,
  not with an empty list.
\<close>

theorem predict_batch_empty_counterexample:
  "predict_batch (serving strict_artifact) ''2026-01-01T00:00:00'' [] =
     ([Predict []],
      Inl (HTTPException 400 ''Batch prediction failed: Expected 2D array, got 1D array instead''))"
  by (simp add: serving_def strict_artifact_def predict_batch_def predict_batch_try_def Let_def)

theorem predict_batch_empty_witness:
  "predict_batch (serving constant_artifact) ''2026-01-01T00:00:00'' [] =
     ([Predict [], PredictProba []],
      Inr \<lparr>total_samples = 0, predictions = [], batch_timestamp = ''2026-01-01T00:00:00''\<rparr>)
   \<and> predict_batch (serving strict_artifact) ''2026-01-01T00:00:00'' [] =
     ([Predict []],
      Inl (HTTPException 400
        (''Batch prediction failed: '' @ exc_str (PyExc ''ValueError'' ''Expected 2D array, got 1D array instead''))))"
  using
    predict_batch_empty [where s = "serving constant_artifact" and m = constant_artifact
      and now = "''2026-01-01T00:00:00''"]
    predict_batch_empty [where s = "serving strict_artifact" and m = strict_artifact
      and now = "''2026-01-01T00:00:00''"]
  by (simp add: serving_def constant_artifact_def strict_artifact_def)

subsection \<open>Model information after a start-up without sidecar\<close>

lemma get_model_info_ill_typed:
  "get_model_info pv
     \<lparr>MODEL = Some m, MODEL_METADATA = JObj [(''features_used'', JNum 5)], MODEL_LOADED = True\<rparr> now =
   Inl InternalServerError"
  by (simp add: get_model_info_def default_classes_def)

text \<open>
  Claim C10. When start-up ends with the guard holding and the directory of the
  artifact it found held no \<open>metrics.json\<close>, the metadata stays \<open>None\<close> and
  \<open>/model-info\<close> reports the feature names sepal_length, sepal_width, petal_length,
  petal_width, the class names setosa, versicolor, virginica and accuracy 1.0. The
  response is the same as the one obtained when a sidecar recording training accuracy
  1.0 with those names is present.
\<close>

theorem model_info_without_metrics:
  assumes "loaded (load_model fs initial_state)"
    and "first_existing fs possible_paths = Some (p, f)"
    and "fs (dirname p @ ''/metrics.json'') = None"
  shows "MODEL_METADATA (load_model fs initial_state) = JNull
    \<and> get_model_info pv (load_model fs initial_state) now =
        Inr \<lparr>model_name = ''Random Forest Classifier'',
             model_type = ''sklearn.ensemble.RandomForestClassifier'',
             features = [''sepal_length'', ''sepal_width'', ''petal_length'', ''petal_width''],
             classes = [''setosa'', ''versicolor'', ''virginica''],
             accuracy = 1, info_timestamp = now\<rparr>
    \<and> get_model_info pv
          (load_model
             (fs(dirname p @ ''/metrics.json'' \<mapsto>
                JsonFile (JObj [(''train_accuracy'', JNum 1),
                 (''features_used'', JArr [JStr ''sepal_length'', JStr ''sepal_width'', JStr ''petal_length'', JStr ''petal_width'']),
                 (''classes'', JArr [JStr ''setosa'', JStr ''versicolor'', JStr ''virginica''])])))
             initial_state) now =
        Inr \<lparr>model_name = ''Random Forest Classifier'',
             model_type = ''sklearn.ensemble.RandomForestClassifier'',
             features = [''sepal_length'', ''sepal_width'', ''petal_length'', ''petal_width''],
             classes = [''setosa'', ''versicolor'', ''virginica''],
             accuracy = 1, info_timestamp = now\<rparr>"
proof -
  from assms(2) have p: "p \<in> set possible_paths" and fp: "fs p = Some f"
    by (auto dest: first_existing_Some)
  obtain obj where obj: "joblib_load f = Inr obj"
    using assms(1,2) by (cases "joblib_load f") (auto simp: load_model_def loaded_def initial_state_def)
  have s: "load_model fs initial_state = \<lparr>MODEL = obj, MODEL_METADATA = JNull, MODEL_LOADED = True\<rparr>"
    using assms(2,3) obj by (simp add: load_model_def initial_state_def)
  with assms(1) obtain m where m: "obj = Some m" by (auto simp: loaded_def)
  have info: "get_model_info pv (load_model fs initial_state) now =
        Inr \<lparr>model_name = ''Random Forest Classifier'',
             model_type = ''sklearn.ensemble.RandomForestClassifier'',
             features = [''sepal_length'', ''sepal_width'', ''petal_length'', ''petal_width''],
             classes = [''setosa'', ''versicolor'', ''virginica''],
             accuracy = 1, info_timestamp = now\<rparr>"
    by (simp add: s m get_model_info_def default_features_def default_classes_def)
  let ?md = "JObj [(''train_accuracy'', JNum 1),
                 (''features_used'', JArr [JStr ''sepal_length'', JStr ''sepal_width'', JStr ''petal_length'', JStr ''petal_width'']),
                 (''classes'', JArr [JStr ''setosa'', JStr ''versicolor'', JStr ''virginica''])]"
  let ?fs' = "fs(dirname p @ ''/metrics.json'' \<mapsto> JsonFile ?md)"
  have "dirname p @ ''/metrics.json'' \<notin> set possible_paths"
    using p by (rule sidecar_of_candidate)
  then have "first_existing ?fs' possible_paths = Some (p, f)"
    using assms(2) by (simp add: first_existing_update)
  then have s': "load_model ?fs' initial_state =
      \<lparr>MODEL = obj, MODEL_METADATA = ?md, MODEL_LOADED = True\<rparr>"
    using obj by (simp add: load_model_def initial_state_def log_metadata_def)
  have "get_model_info pv (load_model ?fs' initial_state) now =
        Inr \<lparr>model_name = ''Random Forest Classifier'',
             model_type = ''sklearn.ensemble.RandomForestClassifier'',
             features = [''sepal_length'', ''sepal_width'', ''petal_length'', ''petal_width''],
             classes = [''setosa'', ''versicolor'', ''virginica''],
             accuracy = 1, info_timestamp = now\<rparr>"
    unfolding s' by (simp add: m get_model_info_def)
  with s info show ?thesis by simp
qed

theorem model_info_without_metrics_witness:
  "loaded (load_model artifact_only_fs initial_state)
   \<and> first_existing artifact_only_fs possible_paths =
       Some (''/opt/airflow/models/model.pkl'', PickleFile (Some constant_artifact))
   \<and> artifact_only_fs ''/opt/airflow/models/metrics.json'' = None
   \<and> get_model_info no_coercion (load_model artifact_only_fs initial_state) ''2026-01-01T00:00:00'' =
        Inr \<lparr>model_name = ''Random Forest Classifier'',
             model_type = ''sklearn.ensemble.RandomForestClassifier'',
             features = [''sepal_length'', ''sepal_width'', ''petal_length'', ''petal_width''],
             classes = [''setosa'', ''versicolor'', ''virginica''],
             accuracy = 1, info_timestamp = ''2026-01-01T00:00:00''\<rparr>
   \<and> get_model_info no_coercion
        (load_model
           (artifact_only_fs(''/opt/airflow/models/metrics.json'' \<mapsto>
              JsonFile (JObj [(''train_accuracy'', JNum 1),
                 (''features_used'', JArr [JStr ''sepal_length'', JStr ''sepal_width'', JStr ''petal_length'', JStr ''petal_width'']),
                 (''classes'', JArr [JStr ''setosa'', JStr ''versicolor'', JStr ''virginica''])])))
           initial_state) ''2026-01-01T00:00:00'' =
        Inr \<lparr>model_name = ''Random Forest Classifier'',
             model_type = ''sklearn.ensemble.RandomForestClassifier'',
             features = [''sepal_length'', ''sepal_width'', ''petal_length'', ''petal_width''],
             classes = [''setosa'', ''versicolor'', ''virginica''],
             accuracy = 1, info_timestamp = ''2026-01-01T00:00:00''\<rparr>"
proof -
  have a: "first_existing artifact_only_fs possible_paths =
       Some (''/opt/airflow/models/model.pkl'', PickleFile (Some constant_artifact))"
    by (simp add: artifact_only_fs_def possible_paths_def)
  have d: "dirname ''/opt/airflow/models/model.pkl'' @ ''/metrics.json'' = ''/opt/airflow/models/metrics.json''"
    by (simp add: dirname_def)
  have b: "artifact_only_fs (dirname ''/opt/airflow/models/model.pkl'' @ ''/metrics.json'') = None"
    unfolding d by (simp add: artifact_only_fs_def)
  have l: "loaded (load_model artifact_only_fs initial_state)"
    using a b by (simp add: load_model_def loaded_def initial_state_def)
  from model_info_without_metrics [OF l a b, where pv = no_coercion and now = "''2026-01-01T00:00:00''"]
    l a b d
  show ?thesis by simp
qed

section \<open>Properties of the pipeline\<close>

subsection \<open>Load stage\<close>

text \<open>
  Claim C2, as amended. The Load stage probes the four candidate paths in order. If none
  exists it raises \<open>FileNotFoundError\<close>. If one exists, the first such file is read
  and, when it parses, the table is pushed to XCom exactly as read and the stage
  succeeds, whatever its number of rows and its null cells: the null count is logged
  and nothing is checked.
\<close>

theorem load_data_outcome:
  "((\<forall>p \<in> set dataset_paths. fs p = None) \<longrightarrow>
      load_data fs ti = Inl (PyExc ''FileNotFoundError'' ''dataset.csv not found''))
   \<and> (\<forall>pre p post df.
        dataset_paths = pre @ p # post \<and> (\<forall>q \<in> set pre. fs q = None) \<and> fs p = Some (CsvFile df) \<longrightarrow>
        load_data fs ti =
          Inr \<lparr>load_xcom = ti((''load_data'', ''dataset'') \<mapsto> DatasetJson df),
               load_return = (''success'', shape df),
               load_logged_missing = missing_values df\<rparr>)"
proof (intro conjI impI allI)
  assume "\<forall>p \<in> set dataset_paths. fs p = None"
  then have "first_existing fs dataset_paths = None"
    by (simp add: first_existing_None)
  then show "load_data fs ti = Inl (PyExc ''FileNotFoundError'' ''dataset.csv not found'')"
    by (simp add: load_data_def)
next
  fix pre p post df
  assume a: "dataset_paths = pre @ p # post \<and> (\<forall>q \<in> set pre. fs q = None) \<and> fs p = Some (CsvFile df)"
  then have "first_existing fs (pre @ p # post) = Some (p, CsvFile df)"
    by (intro first_existing_skip) simp_all
  with a have "first_existing fs dataset_paths = Some (p, CsvFile df)" by simp
  then show "load_data fs ti =
          Inr \<lparr>load_xcom = ti((''load_data'', ''dataset'') \<mapsto> DatasetJson df),
               load_return = (''success'', shape df),
               load_logged_missing = missing_values df\<rparr>"
    by (simp add: load_data_def)
qed

theorem load_data_outcome_witness:
  "load_data Map.empty Map.empty = Inl (PyExc ''FileNotFoundError'' ''dataset.csv not found'')
   \<and> load_data [''./data/dataset.csv'' \<mapsto> CsvFile small_dataset] Map.empty =
       Inr \<lparr>load_xcom = [(''load_data'', ''dataset'') \<mapsto> DatasetJson small_dataset],
            load_return = (''success'', 3, 5), load_logged_missing = 0\<rparr>"
proof -
  let ?fs = "[''./data/dataset.csv'' \<mapsto> CsvFile small_dataset]"
  have split: "dataset_paths =
      [''/opt/airflow/data/dataset.csv''] @ ''./data/dataset.csv'' # [''/data/dataset.csv'', ''../data/dataset.csv'']"
    by (simp add: dataset_paths_def)
  have pre: "\<forall>q \<in> set [''/opt/airflow/data/dataset.csv'']. ?fs q = None" by simp
  have hit: "?fs ''./data/dataset.csv'' = Some (CsvFile small_dataset)" by simp
  have none: "\<forall>p \<in> set dataset_paths. (Map.empty :: filesystem) p = None" by simp
  have vals: "shape small_dataset = (3, 5)" "missing_values small_dataset = 0"
    by (simp_all add: shape_def missing_values_def small_dataset_def iris_columns_def)
  from load_data_outcome [of Map.empty Map.empty] none
  have a: "load_data Map.empty Map.empty = Inl (PyExc ''FileNotFoundError'' ''dataset.csv not found'')"
    by blast
  from load_data_outcome [of ?fs Map.empty] split pre hit
  have "load_data ?fs Map.empty =
      Inr \<lparr>load_xcom = Map.empty((''load_data'', ''dataset'') \<mapsto> DatasetJson small_dataset),
           load_return = (''success'', shape small_dataset),
           load_logged_missing = missing_values small_dataset\<rparr>"
    by blast
  with a vals show ?thesis by simp
qed

text \<open>
  A file whose only row has an empty cell, and a file with a header and no rows: the
  stage succeeds on both and emits them.
\<close>

theorem load_data_outcome_counterexample:
  "load_data (dataset_fs null_cell_dataset) Map.empty =
     Inr \<lparr>load_xcom = [(''load_data'', ''dataset'') \<mapsto> DatasetJson null_cell_dataset],
          load_return = (''success'', 1, 5), load_logged_missing = 1\<rparr>
   \<and> load_data (dataset_fs header_only_dataset) Map.empty =
     Inr \<lparr>load_xcom = [(''load_data'', ''dataset'') \<mapsto> DatasetJson header_only_dataset],
          load_return = (''success'', 0, 5), load_logged_missing = 0\<rparr>"
  by (simp add: load_data_def dataset_fs_def dataset_paths_def shape_def missing_values_def
      null_cell_dataset_def header_only_dataset_def iris_columns_def)

subsection \<open>Train stage: feature importance\<close>





lemma importance_items_json: "importance_items (importance_json items) = items"
  by (induction items) (auto simp: importance_json_def)




lemma train_model_raises: "\<exists>e. train_result (train_model sk ti) = Inl e"
  unfolding train_model_def train_failed_def joblib_dumps_def Let_def
  by (auto split: option.splits xcom_value.splits sum.splits prod.splits)





subsection \<open>Save stage\<close>

text \<open>
  Claim C3. The Save stage is written to store the artifact first and the sidecar
  second, but it never reaches either write: \<open>joblib.loads\<close> does not exist, so the
  stage raises \<open>AttributeError\<close> before the first write, whatever XCom holds.
\<close>

theorem save_model_raises_before_writing:
  "save_model ti = ([], Inl (PyExc ''AttributeError'' ''module joblib has no attribute loads''))"
  by (simp add: save_model_def joblib_loads_def)

end
